theory Spec2Isabelle
  imports Complex_Main
begin

section \<open>Data model\<close>

text \<open>
  Particles and springs are JavaScript objects that several containers refer to at once
  (the grid's flat list, the cells, the tag lists, the springs' endpoints).  A reference is
  a natural number; the objects themselves live in a store of the system state.
\<close>

type_synonym pid = nat
type_synonym sid = nat
type_synonym tag = string

text \<open>Exceptions a caller can observe.\<close>

datatype error =
    TypeError      \<comment> \<open>raised by the JavaScript runtime (reduce of an empty array, property of undefined)\<close>
  | OutOfBounds    \<comment> \<open>\<open>throw new Error("Cannot add particle to SpatialGrid; out of bounds ...")\<close>\<close>

subsection \<open>Tag filters\<close>

text \<open>
  A tag filter is a plain object.  The code looks at three things only: whether the object
  has any own key at all, its \<open>and\<close> property and its \<open>or\<close> property.
\<close>

record tagFilter =
  f_and :: "tag list option"
  f_or :: "tag list option"
  f_other :: bool   \<comment> \<open>the object has some key other than \<open>and\<close>/\<open>or\<close>\<close>

definition noFilter :: tagFilter where
  "noFilter = \<lparr>f_and = None, f_or = None, f_other = False\<rparr>"

definition andFilter :: "tag list \<Rightarrow> tagFilter" where
  "andFilter ts = \<lparr>f_and = Some ts, f_or = None, f_other = False\<rparr>"

definition orFilter :: "tag list \<Rightarrow> tagFilter" where
  "orFilter ts = \<lparr>f_and = None, f_or = Some ts, f_other = False\<rparr>"

section \<open>TagIndex\<close>

record TagIndex =
  particles :: "pid list"
  tagIndex :: "tag \<rightharpoonup> pid list"

definition TagIndex_new :: TagIndex where
  "TagIndex_new = \<lparr>particles = [], tagIndex = Map.empty\<rparr>"

text \<open>\<open>addTag(entity, tag)\<close>: create the tag's array if missing, push unless already included.\<close>

definition TagIndex_addTag :: "pid \<Rightarrow> tag \<Rightarrow> TagIndex \<Rightarrow> TagIndex" where
  "TagIndex_addTag entity t ti =
     (let arr = (case tagIndex ti t of None \<Rightarrow> [] | Some a \<Rightarrow> a)
      in ti\<lparr>tagIndex := (tagIndex ti)(t \<mapsto> (if entity \<in> set arr then arr else arr @ [entity]))\<rparr>)"

text \<open>\<open>removeTag(entity, tag)\<close>: \<open>indexOf\<close> and \<open>splice\<close> drop the first occurrence.\<close>

definition TagIndex_removeTag :: "pid \<Rightarrow> tag \<Rightarrow> TagIndex \<Rightarrow> TagIndex" where
  "TagIndex_removeTag entity t ti =
     (case tagIndex ti t of
        None \<Rightarrow> ti
      | Some arr \<Rightarrow> ti\<lparr>tagIndex := (tagIndex ti)(t \<mapsto> remove1 entity arr)\<rparr>)"

text \<open>
  \<open>add(entity)\<close> and \<open>remove(entity)\<close> read \<open>entity.tags\<close>; the tags are passed in, in the
  iteration order of the JavaScript \<open>Set\<close>.
\<close>

definition TagIndex_add :: "pid \<Rightarrow> tag list \<Rightarrow> TagIndex \<Rightarrow> TagIndex" where
  "TagIndex_add entity ts ti =
     foldl (\<lambda>acc t. TagIndex_addTag entity t acc) (ti\<lparr>particles := particles ti @ [entity]\<rparr>) ts"

definition TagIndex_remove :: "pid \<Rightarrow> tag list \<Rightarrow> TagIndex \<Rightarrow> TagIndex" where
  "TagIndex_remove entity ts ti =
     foldl (\<lambda>acc t. TagIndex_removeTag entity t acc) (ti\<lparr>particles := remove1 entity (particles ti)\<rparr>) ts"

definition TagIndex_contains :: "TagIndex \<Rightarrow> pid \<Rightarrow> bool" where
  "TagIndex_contains ti entity = (entity \<in> set (particles ti))"

text \<open>\<open>this.tagIndex.get(tag) || []\<close>\<close>

definition tagMembers :: "TagIndex \<Rightarrow> tag \<Rightarrow> pid list" where
  "tagMembers ti t = (case tagIndex ti t of None \<Rightarrow> [] | Some arr \<Rightarrow> arr)"

text \<open>
  \<open>query(filter)\<close>.  \<open>Array.prototype.reduce\<close> without an initial value takes the first
  element as the accumulator and raises a \<open>TypeError\<close> on an empty array.
\<close>

definition TagIndex_query :: "TagIndex \<Rightarrow> tagFilter \<Rightarrow> error + pid list" where
  "TagIndex_query ti f =
     (if f_and f = None \<and> f_or f = None \<and> \<not> f_other f then Inr (particles ti)
      else case f_and f of
        Some ts \<Rightarrow>
          (case map (tagMembers ti) ts of
             [] \<Rightarrow> Inl TypeError
           | a # as \<Rightarrow> Inr (foldl (\<lambda>acc arr. filter (\<lambda>p. p \<in> set arr) acc) a as))
      | None \<Rightarrow>
          (case f_or f of
             Some ts \<Rightarrow> Inr (concat (map (tagMembers ti) ts))
           | None \<Rightarrow> Inr []))"

section \<open>Vectors\<close>

text \<open>
  JavaScript numbers are modelled as real numbers: the arithmetic is exact, and NaN and the
  infinities have no counterpart.
\<close>

record Vector3 =
  vx :: real
  vy :: real
  vz :: real

definition Vector3_zero :: Vector3 where
  "Vector3_zero = \<lparr>vx = 0, vy = 0, vz = 0\<rparr>"

text \<open>
  The vector class that Particle and Spring call (\<open>addVector\<close>, \<open>div\<close>, \<open>mult\<close>,
  \<open>sub\<close>, \<open>magnitude\<close>, \<open>normalize\<close>) is not among the sources: the class of Vec3.js
  inherits from the external wtc-math \<open>Vec3\<close> and defines none of these methods.  Each is
  modelled from the spec's description of the step that uses it.
\<close>

text \<open>Modelled from the spec: \<open>addVector\<close> is missing; "adds to the force accumulator",
  "adds the result to velocity", "adds velocity to position".\<close>

definition Vector3_addVector :: "Vector3 \<Rightarrow> Vector3 \<Rightarrow> Vector3" where
  "Vector3_addVector a b = \<lparr>vx = vx a + vx b, vy = vy a + vy b, vz = vz a + vz b\<rparr>"

text \<open>Modelled from the spec: \<open>Vector3.sub\<close> is missing; "computes the vector difference
  between endpoint positions".\<close>

definition Vector3_sub :: "Vector3 \<Rightarrow> Vector3 \<Rightarrow> Vector3" where
  "Vector3_sub a b = \<lparr>vx = vx a - vx b, vy = vy a - vy b, vz = vz a - vz b\<rparr>"

text \<open>Modelled from the spec: \<open>mult\<close> is missing; "scales by that magnitude".\<close>

definition Vector3_mult :: "Vector3 \<Rightarrow> real \<Rightarrow> Vector3" where
  "Vector3_mult a c = \<lparr>vx = vx a * c, vy = vy a * c, vz = vz a * c\<rparr>"

text \<open>Modelled from the spec: \<open>div\<close> is missing; "divides by mass".  The spec's invariant
  is \<open>mass > 0\<close>; a division by zero has no meaning in this model.\<close>

definition Vector3_div :: "Vector3 \<Rightarrow> real \<Rightarrow> Vector3" where
  "Vector3_div a c = \<lparr>vx = vx a / c, vy = vy a / c, vz = vz a / c\<rparr>"

text \<open>Modelled from the spec: \<open>magnitude\<close> is missing; "magnitude d" of the difference
  vector, the Euclidean length.\<close>

definition Vector3_magnitude :: "Vector3 \<Rightarrow> real" where
  "Vector3_magnitude a = sqrt (vx a * vx a + vy a * vy a + vz a * vz a)"

text \<open>Modelled from the spec: \<open>limit(max)\<close> of Vec3.js is
  \<open>if (length > max) this.length = max\<close>, and the \<open>length\<close> accessor it uses is inherited
  from wtc-math; "clamps the accumulated force vector's magnitude to the cap": the getter is
  the magnitude, the setter rescales the vector to the given magnitude.\<close>

definition Vector3_limit :: "real \<Rightarrow> Vector3 \<Rightarrow> Vector3" where
  "Vector3_limit mx a =
     (if Vector3_magnitude a > mx then Vector3_mult a (mx / Vector3_magnitude a) else a)"

text \<open>Modelled from the spec: \<open>normalize\<close> is missing; "normalizes the difference vector".
  Away from the zero vector it divides by the magnitude.  What it does to the zero vector is
  not known ("normalization is undefined"), so Spring.update below takes the normalisation
  as a parameter, and this definition is applied at vectors of non-zero magnitude only.\<close>

definition Vector3_normalize :: "Vector3 \<Rightarrow> Vector3" where
  "Vector3_normalize a = Vector3_div a (Vector3_magnitude a)"

section \<open>Particle\<close>

record Particle =
  position :: Vector3
  velocity :: Vector3
  forces :: Vector3
  life :: nat
  removeFlag :: bool
  mass :: real
  connections :: "sid list"
  staticBody :: bool
  tags :: "tag list"               \<comment> \<open>the \<open>Set\<close> of tags, in insertion order\<close>
  lastPosition :: "Vector3 option"

definition Particle_new :: "Vector3 \<Rightarrow> Particle" where
  "Particle_new pos =
     \<lparr>position = pos, velocity = Vector3_zero, forces = Vector3_zero, life = 0,
      removeFlag = False, mass = 1, connections = [], staticBody = False, tags = [],
      lastPosition = None\<rparr>"

definition Particle_applyForce :: "Vector3 \<Rightarrow> Particle \<Rightarrow> Particle" where
  "Particle_applyForce force p =
     (if \<not> staticBody p then p\<lparr>forces := Vector3_addVector (forces p) force\<rparr> else p)"

text \<open>\<open>flushForces\<close>: the reset assigns \<open>forces.x\<close> and \<open>forces.y\<close> only.\<close>

definition Particle_flushForces :: "real \<Rightarrow> Particle \<Rightarrow> Particle" where
  "Particle_flushForces lmt p =
     (let f1 = (if lmt \<ge> 0 then Vector3_limit lmt (forces p) else forces p);
          f2 = Vector3_div f1 (mass p);
          v = Vector3_addVector (velocity p) f2
      in p\<lparr>velocity := v, forces := f2\<lparr>vx := 0, vy := 0\<rparr>\<rparr>)"

definition Particle_update :: "real \<Rightarrow> Particle \<Rightarrow> Particle" where
  "Particle_update maxForce p =
     (let p1 = p\<lparr>lastPosition := Some (position p)\<rparr>;
          p2 = Particle_flushForces maxForce p1
      in p2\<lparr>position := Vector3_addVector (position p2) (velocity p2), life := life p2 + 1\<rparr>)"

section \<open>BoundingBox\<close>

record BoundingBox =
  topBackLeft :: Vector3
  bottomFrontRight :: Vector3

definition BoundingBox_new :: "real \<Rightarrow> real \<Rightarrow> real \<Rightarrow> BoundingBox" where
  "BoundingBox_new width height depth =
     \<lparr>topBackLeft = Vector3_zero, bottomFrontRight = \<lparr>vx = width, vy = height, vz = depth\<rparr>\<rparr>"

definition BoundingBox_contains :: "BoundingBox \<Rightarrow> real \<Rightarrow> real \<Rightarrow> real \<Rightarrow> bool" where
  "BoundingBox_contains b x y z =
     (x \<ge> vx (topBackLeft b) \<and> y \<ge> vy (topBackLeft b) \<and> z \<ge> vz (topBackLeft b) \<and>
      x \<le> vx (bottomFrontRight b) \<and> y \<le> vy (bottomFrontRight b) \<and> z \<le> vz (bottomFrontRight b))"

definition BoundingBox_containsVector :: "BoundingBox \<Rightarrow> Vector3 \<Rightarrow> bool" where
  "BoundingBox_containsVector b v = BoundingBox_contains b (vx v) (vy v) (vz v)"

definition BoundingBox_getWidth :: "BoundingBox \<Rightarrow> real" where
  "BoundingBox_getWidth b = vx (bottomFrontRight b) - vx (topBackLeft b)"

definition BoundingBox_getHeight :: "BoundingBox \<Rightarrow> real" where
  "BoundingBox_getHeight b = vy (bottomFrontRight b) - vy (topBackLeft b)"

definition BoundingBox_constrained :: "BoundingBox \<Rightarrow> Vector3 \<Rightarrow> Vector3" where
  "BoundingBox_constrained b v =
     \<lparr>vx = max (vx (topBackLeft b)) (min (vx (bottomFrontRight b)) (vx v)),
      vy = max (vy (topBackLeft b)) (min (vy (bottomFrontRight b)) (vy v)),
      vz = max (vz (topBackLeft b)) (min (vz (bottomFrontRight b)) (vz v))\<rparr>"

section \<open>Spring\<close>

record Spring =
  s_removeFlag :: bool
  particle1 :: pid
  particle2 :: pid
  springLength :: real
  springConstant :: real    \<comment> \<open>the field \<open>k\<close>\<close>

definition Spring_new :: "pid \<Rightarrow> pid \<Rightarrow> real \<Rightarrow> real \<Rightarrow> Spring" where
  "Spring_new a b len c =
     \<lparr>s_removeFlag = False, particle1 = a, particle2 = b, springLength = len, springConstant = c\<rparr>"

section \<open>SpatialGrid\<close>

record SpatialGrid =
  g_bounds :: BoundingBox
  cellSize :: real
  g_particles :: "pid list"     \<comment> \<open>the flat array \<open>particles\<close>\<close>
  rows :: int
  cols :: int
  cells :: "TagIndex list"
  globalTagIndex :: TagIndex

definition SpatialGrid_new :: "BoundingBox \<Rightarrow> real \<Rightarrow> SpatialGrid" where
  "SpatialGrid_new b cs =
     (let r = \<lceil>(BoundingBox_getHeight b + cs) / cs\<rceil>;
          c = \<lceil>(BoundingBox_getWidth b + cs) / cs\<rceil>
      in \<lparr>g_bounds = b, cellSize = cs, g_particles = [], rows = r, cols = c,
          cells = replicate (nat (r * c)) TagIndex_new, globalTagIndex = TagIndex_new\<rparr>)"

text \<open>\<open>this.cells[i]\<close>: \<open>undefined\<close> outside the array.\<close>

definition cellAt :: "SpatialGrid \<Rightarrow> int \<Rightarrow> TagIndex option" where
  "cellAt g i = (if 0 \<le> i \<and> i < int (length (cells g)) then Some (cells g ! nat i) else None)"

definition SpatialGrid_getCell :: "SpatialGrid \<Rightarrow> int \<Rightarrow> int \<Rightarrow> TagIndex option" where
  "SpatialGrid_getCell g col row = cellAt g (col + row * cols g)"

definition SpatialGrid_hashPosition :: "SpatialGrid \<Rightarrow> Vector3 \<Rightarrow> int" where
  "SpatialGrid_hashPosition g pos =
     (let col = \<lfloor>vx pos / cellSize g\<rfloor>; row = \<lfloor>vy pos / cellSize g\<rfloor>
      in if col < 0 \<or> col \<ge> cols g \<or> row < 0 \<or> row \<ge> rows g then -1
         else row * cols g + col)"

text \<open>
  The grid's methods receive a particle object and read its position and tags; here they
  receive the reference together with the position and the tags read from the store.
\<close>

definition SpatialGrid_addParticle ::
    "pid \<Rightarrow> Vector3 \<Rightarrow> tag list \<Rightarrow> SpatialGrid \<Rightarrow> error + SpatialGrid" where
  "SpatialGrid_addParticle p pos ts g =
     (if \<not> BoundingBox_containsVector (g_bounds g) pos then Inl OutOfBounds
      else let idx = SpatialGrid_hashPosition g pos
           in case cellAt g idx of
                None \<Rightarrow> Inl TypeError
              | Some c \<Rightarrow>
                  Inr (g\<lparr>g_particles := g_particles g @ [p],
                         cells := (cells g)[nat idx := TagIndex_add p ts c],
                         globalTagIndex := TagIndex_add p ts (globalTagIndex g)\<rparr>))"

text \<open>
  \<open>removeParticle\<close>, the part that touches the grid; \<open>particle.detachSprings()\<close> is applied
  to the spring store by the caller (see \<open>ParticleSystem_removeParticle\<close>).
\<close>

definition SpatialGrid_removeParticle ::
    "pid \<Rightarrow> Vector3 \<Rightarrow> tag list \<Rightarrow> SpatialGrid \<Rightarrow> error + SpatialGrid" where
  "SpatialGrid_removeParticle p pos ts g =
     (let idx = SpatialGrid_hashPosition g pos
      in if idx \<ge> 0 then
           (case cellAt g idx of
              None \<Rightarrow> Inl TypeError
            | Some c \<Rightarrow>
                Inr (g\<lparr>cells := (cells g)[nat idx := TagIndex_remove p ts c],
                       g_particles := remove1 p (g_particles g),
                       globalTagIndex := TagIndex_remove p ts (globalTagIndex g)\<rparr>))
         else Inr (g\<lparr>g_particles := remove1 p (g_particles g),
                     globalTagIndex := TagIndex_remove p ts (globalTagIndex g)\<rparr>))"

definition SpatialGrid_updateCell ::
    "pid \<Rightarrow> Vector3 \<Rightarrow> tag list \<Rightarrow> int \<Rightarrow> SpatialGrid \<Rightarrow> SpatialGrid" where
  "SpatialGrid_updateCell p pos ts oldIndex g =
     (let newIndex = SpatialGrid_hashPosition g pos
      in if newIndex \<noteq> oldIndex then
           (let g1 = (if oldIndex \<ge> 0 \<and> oldIndex < int (length (cells g))
                      then g\<lparr>cells := (cells g)[nat oldIndex :=
                                 TagIndex_remove p ts (cells g ! nat oldIndex)]\<rparr>
                      else g)
            in if newIndex \<ge> 0 \<and> newIndex < int (length (cells g1))
               then g1\<lparr>cells := (cells g1)[nat newIndex :=
                          TagIndex_add p ts (cells g1 ! nat newIndex)]\<rparr>
               else g1)
         else g)"

definition SpatialGrid_addTag :: "pid \<Rightarrow> Vector3 \<Rightarrow> tag \<Rightarrow> SpatialGrid \<Rightarrow> SpatialGrid" where
  "SpatialGrid_addTag p pos t g =
     (let idx = SpatialGrid_hashPosition g pos;
          g1 = (if idx \<ge> 0 \<and> idx < int (length (cells g))
                then g\<lparr>cells := (cells g)[nat idx := TagIndex_addTag p t (cells g ! nat idx)]\<rparr>
                else g)
      in g1\<lparr>globalTagIndex := TagIndex_addTag p t (globalTagIndex g1)\<rparr>)"

definition SpatialGrid_removeTag :: "pid \<Rightarrow> Vector3 \<Rightarrow> tag \<Rightarrow> SpatialGrid \<Rightarrow> SpatialGrid" where
  "SpatialGrid_removeTag p pos t g =
     (let idx = SpatialGrid_hashPosition g pos;
          g1 = (if idx \<ge> 0 \<and> idx < int (length (cells g))
                then g\<lparr>cells := (cells g)[nat idx := TagIndex_removeTag p t (cells g ! nat idx)]\<rparr>
                else g)
      in g1\<lparr>globalTagIndex := TagIndex_removeTag p t (globalTagIndex g1)\<rparr>)"

text \<open>Results pushed onto one output array in turn; the first exception ends the loop.\<close>

fun collectE :: "(error + 'a list) list \<Rightarrow> error + 'a list" where
  "collectE [] = Inr []"
| "collectE (r # rs) =
     (case r of
        Inl e \<Rightarrow> Inl e
      | Inr xs \<Rightarrow> (case collectE rs of Inl e \<Rightarrow> Inl e | Inr ys \<Rightarrow> Inr (xs @ ys)))"

text \<open>
  \<open>query({tags, position})\<close>.  The spatial constraint is \<open>None\<close> (absent or an empty
  object) or \<open>Some (at, radius)\<close>, the radius counted in cells.
\<close>

definition SpatialGrid_query ::
    "SpatialGrid \<Rightarrow> tagFilter \<Rightarrow> (Vector3 \<times> int) option \<Rightarrow> error + pid list" where
  "SpatialGrid_query g tgs position' =
     (case position' of
        None \<Rightarrow> TagIndex_query (globalTagIndex g) tgs
      | Some (at', radius) \<Rightarrow>
          (let cellX = \<lfloor>vx at' / cellSize g\<rfloor>; cellY = \<lfloor>vy at' / cellSize g\<rfloor>
           in collectE
                (concat (map (\<lambda>x. concat (map (\<lambda>y.
                     if x \<ge> 0 \<and> x < cols g \<and> y \<ge> 0 \<and> y < rows g
                     then [case cellAt g (x + y * cols g) of
                             None \<Rightarrow> Inl TypeError
                           | Some c \<Rightarrow> TagIndex_query c tgs]
                     else [])
                   [cellY - radius .. cellY + radius]))
                 [cellX - radius .. cellX + radius]))))"

section \<open>ParticleSystem\<close>

text \<open>
  The system state holds the store of particle and spring objects next to the fields of the
  class.  The registered callbacks (behaviors, interactions) are not part of the state: the
  tick takes the effect of its behavior phase as a parameter.
\<close>

record ParticleSystem =
  bounds :: BoundingBox
  grid :: SpatialGrid
  maxParticles :: real
  maxDensity :: real
  maxForce :: real
  particleCreationQueue :: "pid list"
  springs :: "sid list"
  springCreationQueue :: "sid list"
  pstore :: "pid \<Rightarrow> Particle"
  sstore :: "sid \<Rightarrow> Spring"
  nextParticle :: pid          \<comment> \<open>the next fresh particle reference\<close>
  nextSpring :: sid            \<comment> \<open>the next fresh spring reference\<close>

definition ParticleSystem_new :: "BoundingBox \<Rightarrow> real \<Rightarrow> real \<Rightarrow> real \<Rightarrow> ParticleSystem" where
  "ParticleSystem_new b cs mp md =
     \<lparr>bounds = b, grid = SpatialGrid_new b cs, maxParticles = mp, maxDensity = md,
      maxForce = -1, particleCreationQueue = [], springs = [], springCreationQueue = [],
      pstore = (\<lambda>_. Particle_new Vector3_zero), sstore = (\<lambda>_. Spring_new 0 0 0 0),
      nextParticle = 0, nextSpring = 0\<rparr>"

definition ParticleSystem_query ::
    "ParticleSystem \<Rightarrow> tagFilter \<Rightarrow> (Vector3 \<times> int) option \<Rightarrow> error + pid list" where
  "ParticleSystem_query sys tgs position' = SpatialGrid_query (grid sys) tgs position'"

text \<open>\<open>getDensity\<close>: \<open>cell.particles\<close> of an undefined cell raises a TypeError.\<close>

definition ParticleSystem_getDensity :: "ParticleSystem \<Rightarrow> Vector3 \<Rightarrow> error + real" where
  "ParticleSystem_getDensity sys pos =
     (if \<not> BoundingBox_containsVector (bounds sys) pos then Inr 1
      else let col = \<lfloor>vx pos / cellSize (grid sys)\<rfloor>;
               row = \<lfloor>vy pos / cellSize (grid sys)\<rfloor>
           in case SpatialGrid_getCell (grid sys) col row of
                None \<Rightarrow> Inl TypeError
              | Some cell \<Rightarrow> Inr (real (length (particles cell)) / (cellSize (grid sys)) ^ 2))"

definition ParticleSystem_checkPosition ::
    "ParticleSystem \<Rightarrow> Vector3 \<Rightarrow> real \<Rightarrow> error + bool" where
  "ParticleSystem_checkPosition sys pos maxPerCell =
     (case ParticleSystem_getDensity sys pos of
        Inl e \<Rightarrow> Inl e
      | Inr dens \<Rightarrow>
          Inr (real (length (g_particles (grid sys))) < maxParticles sys \<and>
               dens < maxDensity sys \<and> dens < maxPerCell))"

text \<open>
  \<open>createParticle\<close> returns the new particle, or \<open>undefined\<close> (here \<open>None\<close>) when the
  request is refused.  \<open>checkPosition(pos)\<close> is called with its default cap 1.
\<close>

definition ParticleSystem_createParticle ::
    "ParticleSystem \<Rightarrow> Vector3 \<Rightarrow> bool \<Rightarrow> error + (pid option \<times> ParticleSystem)" where
  "ParticleSystem_createParticle sys pos allowOutside =
     (let created =
            (let p = nextParticle sys
             in (Some p,
                 sys\<lparr>pstore := (pstore sys)(p := Particle_new (BoundingBox_constrained (bounds sys) pos)),
                     nextParticle := Suc p,
                     particleCreationQueue := particleCreationQueue sys @ [p]\<rparr>))
      in if allowOutside then Inr created
         else case ParticleSystem_checkPosition sys pos 1 of
                Inl e \<Rightarrow> Inl e
              | Inr ok \<Rightarrow> if ok then Inr created else Inr (None, sys))"

text \<open>\<open>system.addTag(particle, tag)\<close> and \<open>system.removeTag(particle, tag)\<close>\<close>

definition ParticleSystem_addTag :: "pid \<Rightarrow> tag \<Rightarrow> ParticleSystem \<Rightarrow> ParticleSystem" where
  "ParticleSystem_addTag p t sys =
     sys\<lparr>grid := SpatialGrid_addTag p (position (pstore sys p)) t (grid sys)\<rparr>"

definition ParticleSystem_removeTag :: "pid \<Rightarrow> tag \<Rightarrow> ParticleSystem \<Rightarrow> ParticleSystem" where
  "ParticleSystem_removeTag p t sys =
     sys\<lparr>grid := SpatialGrid_removeTag p (position (pstore sys p)) t (grid sys)\<rparr>"

text \<open>
  \<open>particle.addTag(tag)\<close> and \<open>particle.removeTag(tag)\<close> of a particle that belongs to the
  system: the tag set changes, then the system is notified.
\<close>

definition Particle_addTag :: "pid \<Rightarrow> tag \<Rightarrow> ParticleSystem \<Rightarrow> ParticleSystem" where
  "Particle_addTag p t sys =
     (let P = pstore sys p;
          P' = P\<lparr>tags := (if t \<in> set (tags P) then tags P else tags P @ [t])\<rparr>
      in ParticleSystem_addTag p t (sys\<lparr>pstore := (pstore sys)(p := P')\<rparr>))"

definition Particle_removeTag :: "pid \<Rightarrow> tag \<Rightarrow> ParticleSystem \<Rightarrow> ParticleSystem" where
  "Particle_removeTag p t sys =
     (let P = pstore sys p;
          P' = P\<lparr>tags := removeAll t (tags P)\<rparr>
      in ParticleSystem_removeTag p t (sys\<lparr>pstore := (pstore sys)(p := P')\<rparr>))"

definition ParticleSystem_createSpring ::
    "pid \<Rightarrow> pid \<Rightarrow> real \<Rightarrow> real \<Rightarrow> ParticleSystem \<Rightarrow> sid \<times> ParticleSystem" where
  "ParticleSystem_createSpring a b restLength c sys =
     (let s = nextSpring sys;
          sys1 = sys\<lparr>sstore := (sstore sys)(s := Spring_new a b restLength c),
                     nextSpring := Suc s,
                     springCreationQueue := springCreationQueue sys @ [s]\<rparr>;
          sys2 = sys1\<lparr>pstore := (pstore sys1)(a := (pstore sys1 a)
                          \<lparr>connections := connections (pstore sys1 a) @ [s]\<rparr>)\<rparr>
      in (s, sys2\<lparr>pstore := (pstore sys2)(b := (pstore sys2 b)
                          \<lparr>connections := connections (pstore sys2 b) @ [s]\<rparr>)\<rparr>))"

subsection \<open>The phases of a tick\<close>

text \<open>
  \<open>Spring.update\<close>.  The parameter \<open>nrm\<close> is the vector class's \<open>normalize\<close>.  The removal
  flag of the spring is not read.
\<close>

definition Spring_update :: "(Vector3 \<Rightarrow> Vector3) \<Rightarrow> sid \<Rightarrow> ParticleSystem \<Rightarrow> ParticleSystem" where
  "Spring_update nrm i sys =
     (let s = sstore sys i;
          delta = Vector3_sub (position (pstore sys (particle1 s))) (position (pstore sys (particle2 s)));
          forceMag = (springLength s - Vector3_magnitude delta) * springConstant s;
          force = Vector3_mult (nrm delta) forceMag;
          sys1 = sys\<lparr>pstore := (pstore sys)(particle1 s :=
                        Particle_applyForce force (pstore sys (particle1 s)))\<rparr>
      in sys1\<lparr>pstore := (pstore sys1)(particle2 s :=
                        Particle_applyForce (Vector3_mult force (-1)) (pstore sys1 (particle2 s)))\<rparr>)"

definition ParticleSystem_updateSprings ::
    "(Vector3 \<Rightarrow> Vector3) \<Rightarrow> ParticleSystem \<Rightarrow> ParticleSystem" where
  "ParticleSystem_updateSprings nrm sys = foldl (\<lambda>st i. Spring_update nrm i st) sys (springs sys)"

definition updateParticle :: "ParticleSystem \<Rightarrow> pid \<Rightarrow> ParticleSystem" where
  "updateParticle sys p =
     (let oldCell = SpatialGrid_hashPosition (grid sys) (position (pstore sys p));
          P' = Particle_update (maxForce sys) (pstore sys p)
      in sys\<lparr>pstore := (pstore sys)(p := P'),
             grid := SpatialGrid_updateCell p (position P') (tags P') oldCell (grid sys)\<rparr>)"

definition ParticleSystem_updateParticles :: "ParticleSystem \<Rightarrow> ParticleSystem" where
  "ParticleSystem_updateParticles sys = foldl updateParticle sys (g_particles (grid sys))"

text \<open>\<open>grid.removeParticle(p)\<close> together with \<open>p.detachSprings()\<close>, which flags every
  spring in the particle's connection list.\<close>

definition ParticleSystem_removeParticle :: "pid \<Rightarrow> ParticleSystem \<Rightarrow> error + ParticleSystem" where
  "ParticleSystem_removeParticle p sys =
     (case SpatialGrid_removeParticle p (position (pstore sys p)) (tags (pstore sys p)) (grid sys) of
        Inl e \<Rightarrow> Inl e
      | Inr g \<Rightarrow>
          Inr (sys\<lparr>grid := g,
                  sstore := foldl (\<lambda>st c. st(c := (st c)\<lparr>s_removeFlag := True\<rparr>))
                              (sstore sys) (connections (pstore sys p))\<rparr>))"

fun removeParticles :: "pid list \<Rightarrow> ParticleSystem \<Rightarrow> error + ParticleSystem" where
  "removeParticles [] sys = Inr sys"
| "removeParticles (p # ps) sys =
     (case ParticleSystem_removeParticle p sys of
        Inl e \<Rightarrow> Inl e
      | Inr sys' \<Rightarrow> removeParticles ps sys')"

text \<open>Modelled from the spec: \<open>getN1\<close> and \<open>getN2\<close> are not defined by the Spring class of
  the sources; cleanup "detaches it from both endpoints' constraint lists", so they return
  the two endpoints.\<close>

definition Spring_getN1 :: "Spring \<Rightarrow> pid" where
  "Spring_getN1 s = particle1 s"

text \<open>Modelled from the spec: see \<open>Spring_getN1\<close>; \<open>getN2\<close> is the second endpoint.\<close>

definition Spring_getN2 :: "Spring \<Rightarrow> pid" where
  "Spring_getN2 s = particle2 s"

definition Particle_removeSpring :: "sid \<Rightarrow> Particle \<Rightarrow> Particle" where
  "Particle_removeSpring s P = P\<lparr>connections := remove1 s (connections P)\<rparr>"

definition removeSpring :: "ParticleSystem \<Rightarrow> sid \<Rightarrow> ParticleSystem" where
  "removeSpring sys s =
     (let sys1 = sys\<lparr>springs := remove1 s (springs sys)\<rparr>;
          n1 = Spring_getN1 (sstore sys1 s);
          sys2 = sys1\<lparr>pstore := (pstore sys1)(n1 := Particle_removeSpring s (pstore sys1 n1))\<rparr>;
          n2 = Spring_getN2 (sstore sys2 s)
      in sys2\<lparr>pstore := (pstore sys2)(n2 := Particle_removeSpring s (pstore sys2 n2))\<rparr>)"

text \<open>
  \<open>cleanUpParticles\<close>: \<open>grid.query()\<close> is the global index's member list; both filters are
  evaluated before their \<open>forEach\<close> runs.
\<close>

definition ParticleSystem_cleanUpParticles :: "ParticleSystem \<Rightarrow> error + ParticleSystem" where
  "ParticleSystem_cleanUpParticles sys =
     (case SpatialGrid_query (grid sys) noFilter None of
        Inl e \<Rightarrow> Inl e
      | Inr ps \<Rightarrow>
          (case removeParticles (filter (\<lambda>p. removeFlag (pstore sys p)) ps) sys of
             Inl e \<Rightarrow> Inl e
           | Inr sys1 \<Rightarrow>
               Inr (foldl removeSpring sys1
                      (filter (\<lambda>s. s_removeFlag (sstore sys1 s)) (springs sys1)))))"

fun addParticles :: "pid list \<Rightarrow> ParticleSystem \<Rightarrow> error + ParticleSystem" where
  "addParticles [] sys = Inr sys"
| "addParticles (p # ps) sys =
     (case SpatialGrid_addParticle p (position (pstore sys p)) (tags (pstore sys p)) (grid sys) of
        Inl e \<Rightarrow> Inl e
      | Inr g \<Rightarrow> addParticles ps (sys\<lparr>grid := g\<rparr>))"

text \<open>
  \<open>update()\<close>, one tick.  \<open>behaviors\<close> is the effect of \<open>updateBehaviors\<close>, that is of the
  registered callbacks.  An exception ends the tick; the model returns the exception alone.
\<close>

definition ParticleSystem_update ::
    "(Vector3 \<Rightarrow> Vector3) \<Rightarrow> (ParticleSystem \<Rightarrow> ParticleSystem) \<Rightarrow> ParticleSystem
      \<Rightarrow> error + ParticleSystem" where
  "ParticleSystem_update nrm behaviors sys =
     (case addParticles (particleCreationQueue sys) sys of
        Inl e \<Rightarrow> Inl e
      | Inr sys1 \<Rightarrow>
          (let sys2 = sys1\<lparr>particleCreationQueue := []\<rparr>;
               sys3 = sys2\<lparr>springs := springs sys2 @ springCreationQueue sys2\<rparr>;
               sys4 = sys3\<lparr>springCreationQueue := []\<rparr>;
               sys5 = ParticleSystem_updateSprings nrm sys4;
               sys6 = behaviors sys5;
               sys7 = ParticleSystem_updateParticles sys6
           in ParticleSystem_cleanUpParticles sys7))"

subsection \<open>Symmetric interactions\<close>

text \<open>The calls \<open>interaction(listA[i], listA[j])\<close> for \<open>i < j\<close>, in order.\<close>

fun pairsWithin :: "'a list \<Rightarrow> ('a \<times> 'a) list" where
  "pairsWithin [] = []"
| "pairsWithin (x # xs) = map (Pair x) xs @ pairsWithin xs"

text \<open>
  \<open>_applySymmetricCell\<close>, as the list of argument pairs the interaction is called with.
  The interaction is taken not to change the grid's indices while the phase runs.
\<close>

definition applySymmetricCell ::
    "SpatialGrid \<Rightarrow> tagFilter \<Rightarrow> int \<Rightarrow> int \<Rightarrow> int \<Rightarrow> int \<Rightarrow> error + (pid \<times> pid) list" where
  "applySymmetricCell g f cx1 cy1 cx2 cy2 =
     (if cx2 < 0 \<or> cy2 < 0 \<or> cx2 \<ge> cols g \<or> cy2 \<ge> rows g then Inr []
      else case (SpatialGrid_getCell g cx1 cy1, SpatialGrid_getCell g cx2 cy2) of
             (Some cellA, Some cellB) \<Rightarrow>
               (case TagIndex_query cellA f of
                  Inl e \<Rightarrow> Inl e
                | Inr listA \<Rightarrow>
                    (case TagIndex_query cellB f of
                       Inl e \<Rightarrow> Inl e
                     | Inr listB \<Rightarrow>
                         Inr (if cx1 = cx2 \<and> cy1 = cy2 then pairsWithin listA
                              else List.product listA listB)))
           | _ \<Rightarrow> Inr [])"

text \<open>The loop of \<open>updateBehaviors\<close> for one registered symmetric interaction.\<close>

definition symmetricCalls :: "SpatialGrid \<Rightarrow> tagFilter \<Rightarrow> error + (pid \<times> pid) list" where
  "symmetricCalls g f =
     collectE (concat (map (\<lambda>cx. concat (map (\<lambda>cy.
        [applySymmetricCell g f cx cy cx cy,
         applySymmetricCell g f cx cy (cx + 1) cy,
         applySymmetricCell g f cx cy (cx + 1) (cy + 1),
         applySymmetricCell g f cx cy cx (cy + 1),
         applySymmetricCell g f cx cy (cx - 1) (cy + 1)])
        [0 .. rows g - 1])) [0 .. cols g - 1]))"

subsection \<open>Methods of stored objects\<close>

text \<open>\<open>particle.applyForce(force)\<close> on the particle behind a reference.\<close>

definition applyForceTo :: "pid \<Rightarrow> Vector3 \<Rightarrow> ParticleSystem \<Rightarrow> ParticleSystem" where
  "applyForceTo p force sys = sys\<lparr>pstore := (pstore sys)(p := Particle_applyForce force (pstore sys p))\<rparr>"

text \<open>\<open>spring.remove()\<close>: sets the removal flag.\<close>

definition Spring_remove :: "sid \<Rightarrow> ParticleSystem \<Rightarrow> ParticleSystem" where
  "Spring_remove s sys = sys\<lparr>sstore := (sstore sys)(s := (sstore sys s)\<lparr>s_removeFlag := True\<rparr>)\<rparr>"

section \<open>Scenarios\<close>

text \<open>
  A 10 by 10 domain with cell size 10: two rows and two columns of cells, the defaults
  \<open>maxParticles = 1000\<close> and \<open>maxDensity = 0.1\<close>.
\<close>

definition demoSystem :: ParticleSystem where
  "demoSystem = ParticleSystem_new (BoundingBox_new 10 10 0) 10 1000 (1 / 10)"

text \<open>One particle created at (5, 5), before any tick.\<close>

definition oneCreated :: ParticleSystem where
  "oneCreated = snd (projr (ParticleSystem_createParticle demoSystem \<lparr>vx = 5, vy = 5, vz = 0\<rparr> False))"

text \<open>A tick without registered callbacks, with the usual normalisation.\<close>

definition plainTick :: "ParticleSystem \<Rightarrow> error + ParticleSystem" where
  "plainTick sys = ParticleSystem_update Vector3_normalize (\<lambda>s. s) sys"

text \<open>The particle is given the tags a and b, then a tick commits it.\<close>

definition twoTagsCommitted :: ParticleSystem where
  "twoTagsCommitted = projr (plainTick (Particle_addTag 0 ''b'' (Particle_addTag 0 ''a'' oneCreated)))"

text \<open>The particle receives the force (-10, 0, 0) and one tick runs: it leaves the grid.\<close>

definition pushedOut :: ParticleSystem where
  "pushedOut = projr (plainTick (applyForceTo 0 \<lparr>vx = -10, vy = 0, vz = 0\<rparr> oneCreated))"

text \<open>The same push, stopped between the commit of the particle and its integration.\<close>

definition committedPushed :: ParticleSystem where
  "committedPushed = applyForceTo 0 \<lparr>vx = -10, vy = 0, vz = 0\<rparr> (projr (plainTick oneCreated))"

text \<open>It then receives the force (20, 0, 0) and a second tick runs: it comes back.\<close>

definition pushedBack :: ParticleSystem where
  "pushedBack = projr (plainTick (applyForceTo 0 \<lparr>vx = 20, vy = 0, vz = 0\<rparr> pushedOut))"

text \<open>
  Two particles at (1, 1) and (2, 1), joined by a spring of rest length 2 and stiffness 1.
\<close>

definition linkedPair :: ParticleSystem where
  "linkedPair =
     snd (ParticleSystem_createSpring 0 1 2 1
       (snd (projr (ParticleSystem_createParticle
          (snd (projr (ParticleSystem_createParticle demoSystem \<lparr>vx = 1, vy = 1, vz = 0\<rparr> False)))
          \<lparr>vx = 2, vy = 1, vz = 0\<rparr> False))))"

text \<open>The same, with the spring's removal flag set before the first tick.\<close>

definition flaggedSpring :: ParticleSystem where
  "flaggedSpring = Spring_remove 0 linkedPair"

text \<open>
  A 20 by 10 domain with cell size 10 (three columns, two rows) and two committed particles
  in horizontally adjacent cells, at (5, 5) and (15, 5), both tagged a.
\<close>

definition twoNeighbours :: ParticleSystem where
  "twoNeighbours =
     projr (plainTick (Particle_addTag 1 ''a'' (Particle_addTag 0 ''a''
       (snd (projr (ParticleSystem_createParticle
          (snd (projr (ParticleSystem_createParticle
             (ParticleSystem_new (BoundingBox_new 20 10 0) 10 1000 (1 / 10))
             \<lparr>vx = 5, vy = 5, vz = 0\<rparr> False)))
          \<lparr>vx = 15, vy = 5, vz = 0\<rparr> False))))))"

lemmas scenario_defs =
  demoSystem_def oneCreated_def plainTick_def twoTagsCommitted_def pushedOut_def pushedBack_def
  committedPushed_def linkedPair_def flaggedSpring_def twoNeighbours_def applyForceTo_def
  Spring_remove_def

lemmas model_defs0 =
  ParticleSystem_new_def SpatialGrid_new_def BoundingBox_new_def TagIndex_new_def
  ParticleSystem_createParticle_def ParticleSystem_checkPosition_def ParticleSystem_getDensity_def
  BoundingBox_containsVector_def BoundingBox_contains_def BoundingBox_constrained_def
  BoundingBox_getWidth_def BoundingBox_getHeight_def Vector3_zero_def
  SpatialGrid_getCell_def cellAt_def SpatialGrid_hashPosition_def
  Particle_addTag_def ParticleSystem_addTag_def SpatialGrid_addTag_def TagIndex_addTag_def
  ParticleSystem_query_def SpatialGrid_query_def TagIndex_query_def tagMembers_def
  orFilter_def andFilter_def noFilter_def Particle_new_def
  ParticleSystem_update_def ParticleSystem_updateSprings_def ParticleSystem_updateParticles_def
  ParticleSystem_cleanUpParticles_def updateParticle_def SpatialGrid_updateCell_def
  SpatialGrid_addParticle_def TagIndex_add_def TagIndex_remove_def TagIndex_removeTag_def
  Particle_update_def Particle_flushForces_def Particle_applyForce_def
  Vector3_addVector_def Vector3_div_def Vector3_sub_def Vector3_mult_def Vector3_magnitude_def
  Vector3_normalize_def Vector3_limit_def Spring_update_def Spring_new_def
  ParticleSystem_createSpring_def removeSpring_def Spring_getN1_def Spring_getN2_def
  Particle_removeSpring_def ParticleSystem_removeParticle_def SpatialGrid_removeParticle_def
  symmetricCalls_def applySymmetricCell_def

text \<open>The same equations with every \<open>let\<close> expanded, for evaluating a scenario.\<close>

lemmas model_defs = model_defs0[unfolded Let_def] upto.simps eval_nat_numeral

section \<open>Well-formed systems\<close>

text \<open>
  What the constructors establish and no method changes: a positive cell size, a domain
  whose corner is the origin, the row and column counts derived from it, one cell per
  (column, row).
\<close>

definition gridGeometry :: "ParticleSystem \<Rightarrow> bool" where
  "gridGeometry sys \<longleftrightarrow>
     cellSize (grid sys) > 0 \<and> topBackLeft (bounds sys) = Vector3_zero \<and>
     g_bounds (grid sys) = bounds sys \<and>
     rows (grid sys) = \<lceil>(BoundingBox_getHeight (bounds sys) + cellSize (grid sys)) / cellSize (grid sys)\<rceil> \<and>
     cols (grid sys) = \<lceil>(BoundingBox_getWidth (bounds sys) + cellSize (grid sys)) / cellSize (grid sys)\<rceil> \<and>
     length (cells (grid sys)) = nat (rows (grid sys) * cols (grid sys))"

text \<open>
  The density of the spec's admission control, in the spec's words: "the containing cell's
  current member count divided by cellSize squared", and maximal density (1) for a request
  outside the domain bounds.
\<close>

definition spec_density :: "ParticleSystem \<Rightarrow> Vector3 \<Rightarrow> real" where
  "spec_density sys pos =
     (if \<not> BoundingBox_containsVector (bounds sys) pos then 1
      else real (length (particles (cells (grid sys) !
                   nat (\<lfloor>vx pos / cellSize (grid sys)\<rfloor> + \<lfloor>vy pos / cellSize (grid sys)\<rfloor> * cols (grid sys)))))
           / (cellSize (grid sys)) ^ 2)"

text \<open>
  The bucket invariant: a cell holds a live particle exactly when the cell's flat index is
  the hash of the particle's position.  For a position outside the cell range the hash is
  \<open>-1\<close>, and the particle is then in no cell.
\<close>

definition bucketed :: "SpatialGrid \<Rightarrow> (pid \<Rightarrow> Particle) \<Rightarrow> bool" where
  "bucketed g ps \<longleftrightarrow>
     (\<forall>p\<in>set (g_particles g). \<forall>i<length (cells g).
        (p \<in> set (particles (cells g ! i))) = (int i = SpatialGrid_hashPosition g (position (ps p))))"

text \<open>
  What the grid's methods keep true, for the queue \<open>q\<close> of particles not yet committed and
  the next fresh reference \<open>n\<close>: one cell per coordinate, the bucket invariant, no duplicates
  in the flat list or in a cell, and queued particles that are inside the bounds and in no
  container yet.
\<close>

definition gridInv :: "pid \<Rightarrow> pid list \<Rightarrow> SpatialGrid \<Rightarrow> (pid \<Rightarrow> Particle) \<Rightarrow> bool" where
  "gridInv n q g ps \<longleftrightarrow>
     length (cells g) = nat (rows g * cols g) \<and>
     bucketed g ps \<and>
     distinct (g_particles g) \<and>
     (\<forall>i<length (cells g). distinct (particles (cells g ! i))) \<and>
     distinct q \<and>
     (\<forall>p\<in>set q. p \<notin> set (g_particles g) \<and>
        (\<forall>i<length (cells g). p \<notin> set (particles (cells g ! i))) \<and>
        BoundingBox_containsVector (g_bounds g) (position (ps p))) \<and>
     (\<forall>p\<in>set (g_particles g) \<union> set q. p < n) \<and>
     (\<forall>i<length (cells g). \<forall>p\<in>set (particles (cells g ! i)). p < n)"

text \<open>The invariant of a system between two calls of its methods.\<close>

definition systemInv :: "ParticleSystem \<Rightarrow> bool" where
  "systemInv sys \<longleftrightarrow>
     gridGeometry sys \<and>
     vx (bottomFrontRight (bounds sys)) \<ge> 0 \<and> vy (bottomFrontRight (bounds sys)) \<ge> 0 \<and>
     vz (bottomFrontRight (bounds sys)) \<ge> 0 \<and>
     gridInv (nextParticle sys) (particleCreationQueue sys) (grid sys) (pstore sys)"


section \<open>Properties of TagIndex.query\<close>

lemma TagIndex_query_or:
  "TagIndex_query ti (orFilter ts) = Inr (concat (map (tagMembers ti) ts))"
  by (simp add: TagIndex_query_def orFilter_def)

lemma TagIndex_query_or_set:
  "TagIndex_query ti (orFilter ts) = Inr r \<Longrightarrow> set r = (\<Union>t\<in>set ts. set (tagMembers ti t))"
  by (auto simp: TagIndex_query_or)

text \<open>
  C2.  An \<open>or\<close> query is the concatenation of the listed tags' arrays: an entity that carries
  two of the requested tags is returned twice.  Entity 0 with the tags a and b is added to a
  fresh index; the query for "a or b" returns it two times.
\<close>

theorem C2_or_query_duplicates:
  "TagIndex_query (TagIndex_add 0 [''a'', ''b''] TagIndex_new) (orFilter [''a'', ''b'']) = Inr [0, 0]"
  by (simp add: TagIndex_query_def orFilter_def TagIndex_add_def TagIndex_addTag_def
      TagIndex_new_def tagMembers_def)

text \<open>
  C8.  On every index the filter with an empty \<open>and\<close> list raises a TypeError: the reduce
  runs over an empty array without an initial value.
\<close>

theorem C8_and_empty_raises:
  "TagIndex_query ti (andFilter []) = Inl TypeError"
  by (simp add: TagIndex_query_def andFilter_def)

section \<open>Properties of Particle.update\<close>

lemma Particle_update_velocity:
  "velocity (Particle_update mf p) =
     Vector3_addVector (velocity p)
       (Vector3_div (if mf \<ge> 0 then Vector3_limit mf (forces p) else forces p) (mass p))"
  by (simp add: Particle_update_def Particle_flushForces_def Let_def)

lemma Particle_update_position:
  "position (Particle_update mf p) =
     Vector3_addVector (position p) (velocity (Particle_update mf p))"
  by (simp add: Particle_update_def Particle_flushForces_def Let_def)

lemma Particle_update_life: "life (Particle_update mf p) = life p + 1"
  by (simp add: Particle_update_def Particle_flushForces_def Let_def)

lemma Particle_update_forces_xy:
  "vx (forces (Particle_update mf p)) = 0 \<and> vy (forces (Particle_update mf p)) = 0"
  by (simp add: Particle_update_def Particle_flushForces_def Let_def)

lemma Particle_update_forces_z:
  "vz (forces (Particle_update mf p)) =
     vz (if mf \<ge> 0 then Vector3_limit mf (forces p) else forces p) / mass p"
  by (simp add: Particle_update_def Particle_flushForces_def Let_def Vector3_div_def)

text \<open>
  C3.  The reset after the integration assigns the x and y components only.  A fresh
  particle that received the force (0, 0, 1) keeps that force in its accumulator after
  \<open>update\<close> (and has added it to the velocity), with the default "no cap" limit \<open>-1\<close>.
\<close>

theorem C3_force_z_survives_update:
  "forces (Particle_update (-1)
      (Particle_applyForce \<lparr>vx = 0, vy = 0, vz = 1\<rparr> (Particle_new \<lparr>vx = 5, vy = 5, vz = 0\<rparr>)))
     = \<lparr>vx = 0, vy = 0, vz = 1\<rparr>
   \<and> \<lparr>vx = 0, vy = 0, vz = 1\<rparr> \<noteq> Vector3_zero"
  by (simp add: Particle_update_def Particle_flushForces_def Particle_applyForce_def
      Particle_new_def Vector3_zero_def Vector3_addVector_def Vector3_div_def Let_def)

section \<open>Evaluated scenarios\<close>

text \<open>
  C5.  A particle is created (queued) and tagged before any tick has run.  It is still in
  the creation queue and not in the grid's flat list, yet \<open>addTag\<close> has already entered it
  in the tag lists of the global index and of its cell: the tag-filtered query and the
  tag-filtered spatial query both return it.
\<close>

theorem C5_queued_particle_returned_by_tag_query:
  "ParticleSystem_createParticle demoSystem \<lparr>vx = 5, vy = 5, vz = 0\<rparr> False = Inr (Some 0, oneCreated)
   \<and> particleCreationQueue (Particle_addTag 0 ''a'' oneCreated) = [0]
   \<and> g_particles (grid (Particle_addTag 0 ''a'' oneCreated)) = []
   \<and> ParticleSystem_query (Particle_addTag 0 ''a'' oneCreated) (orFilter [''a'']) None = Inr [0]
   \<and> ParticleSystem_query (Particle_addTag 0 ''a'' oneCreated) (andFilter [''a''])
        (Some (\<lparr>vx = 5, vy = 5, vz = 0\<rparr>, 1)) = Inr [0]"
  by (simp add: scenario_defs model_defs)

text \<open>
  C1.  One committed particle that carries the tags a and b, and a symmetric interaction
  registered with the filter "a or b": the cell's filtered list holds the particle twice, and
  the interaction is called with the particle paired with itself.
\<close>

theorem C1_self_pair_with_or_filter:
  "plainTick (Particle_addTag 0 ''b'' (Particle_addTag 0 ''a'' oneCreated)) = Inr twoTagsCommitted
   \<and> g_particles (grid twoTagsCommitted) = [0]
   \<and> symmetricCalls (grid twoTagsCommitted) (orFilter [''a'', ''b'']) = Inr [(0, 0)]"
  by (simp add: scenario_defs model_defs)

section \<open>Admission control\<close>

lemma flat_index_bound:
  fixes col row cols' rows' :: int
  assumes "0 \<le> col" "col < cols'" "0 \<le> row" "row < rows'"
  shows "0 \<le> col + row * cols' \<and> col + row * cols' < rows' * cols'"
proof -
  have c: "0 \<le> cols'" using assms by linarith
  have "row * cols' \<le> (rows' - 1) * cols'"
    by (rule mult_right_mono) (use assms c in auto)
  moreover have "0 \<le> row * cols'" using assms c by simp
  ultimately show ?thesis using assms by (simp add: algebra_simps)
qed

lemma floor_lt_ceiling_cells:
  fixes x W cs :: real
  assumes "cs > 0" "x \<le> W"
  shows "\<lfloor>x / cs\<rfloor> < \<lceil>(W + cs) / cs\<rceil>"
proof -
  have "(W + cs) / cs = W / cs + 1" using assms by (simp add: field_simps)
  moreover have "x / cs \<le> W / cs" using assms by (simp add: divide_right_mono)
  moreover have "of_int \<lfloor>x / cs\<rfloor> \<le> x / cs" by (rule of_int_floor_le)
  moreover have "W / cs + 1 \<le> of_int \<lceil>W / cs + 1\<rceil>" by (rule le_of_int_ceiling)
  ultimately have "(of_int \<lfloor>x / cs\<rfloor> :: real) < of_int \<lceil>(W + cs) / cs\<rceil>" by linarith
  then show ?thesis by (simp only: of_int_less_iff)
qed

lemma inside_cell_coords:
  assumes "gridGeometry sys" "BoundingBox_containsVector (bounds sys) pos"
  shows "0 \<le> \<lfloor>vx pos / cellSize (grid sys)\<rfloor> \<and> \<lfloor>vx pos / cellSize (grid sys)\<rfloor> < cols (grid sys)
       \<and> 0 \<le> \<lfloor>vy pos / cellSize (grid sys)\<rfloor> \<and> \<lfloor>vy pos / cellSize (grid sys)\<rfloor> < rows (grid sys)"
proof -
  from assms have cs: "cellSize (grid sys) > 0" by (simp add: gridGeometry_def)
  from assms have x: "0 \<le> vx pos" "vx pos \<le> BoundingBox_getWidth (bounds sys)"
    and y: "0 \<le> vy pos" "vy pos \<le> BoundingBox_getHeight (bounds sys)"
    by (simp_all add: gridGeometry_def BoundingBox_containsVector_def BoundingBox_contains_def
        BoundingBox_getWidth_def BoundingBox_getHeight_def Vector3_zero_def)
  from assms have r: "rows (grid sys) = \<lceil>(BoundingBox_getHeight (bounds sys) + cellSize (grid sys)) / cellSize (grid sys)\<rceil>"
    and c: "cols (grid sys) = \<lceil>(BoundingBox_getWidth (bounds sys) + cellSize (grid sys)) / cellSize (grid sys)\<rceil>"
    by (simp_all add: gridGeometry_def)
  have "0 \<le> \<lfloor>vx pos / cellSize (grid sys)\<rfloor>" "0 \<le> \<lfloor>vy pos / cellSize (grid sys)\<rfloor>"
    using cs x(1) y(1) by simp_all
  then show ?thesis
    using floor_lt_ceiling_cells[OF cs x(2)] floor_lt_ceiling_cells[OF cs y(2)] r c by simp
qed

lemma inside_getCell:
  assumes "gridGeometry sys" "BoundingBox_containsVector (bounds sys) pos"
  shows "SpatialGrid_getCell (grid sys) \<lfloor>vx pos / cellSize (grid sys)\<rfloor> \<lfloor>vy pos / cellSize (grid sys)\<rfloor>
         = Some (cells (grid sys) ! nat (\<lfloor>vx pos / cellSize (grid sys)\<rfloor> + \<lfloor>vy pos / cellSize (grid sys)\<rfloor> * cols (grid sys)))"
proof -
  from inside_cell_coords[OF assms] flat_index_bound
  have "0 \<le> \<lfloor>vx pos / cellSize (grid sys)\<rfloor> + \<lfloor>vy pos / cellSize (grid sys)\<rfloor> * cols (grid sys)
      \<and> \<lfloor>vx pos / cellSize (grid sys)\<rfloor> + \<lfloor>vy pos / cellSize (grid sys)\<rfloor> * cols (grid sys) < rows (grid sys) * cols (grid sys)"
    by blast
  moreover from assms have "length (cells (grid sys)) = nat (rows (grid sys) * cols (grid sys))"
    by (simp add: gridGeometry_def)
  ultimately show ?thesis
    by (simp add: SpatialGrid_getCell_def cellAt_def)
qed

lemma getDensity_spec:
  assumes "gridGeometry sys"
  shows "ParticleSystem_getDensity sys pos = Inr (spec_density sys pos)"
  using inside_getCell[OF assms]
  by (simp add: ParticleSystem_getDensity_def spec_density_def Let_def)

lemma gridGeometry_new:
  "cs > 0 \<Longrightarrow> gridGeometry (ParticleSystem_new (BoundingBox_new w h d) cs mp md)"
  by (simp add: gridGeometry_def ParticleSystem_new_def SpatialGrid_new_def BoundingBox_new_def Let_def)

text \<open>
  C6.  On a well-formed system \<open>createParticle(pos, false)\<close> never raises.  It queues and
  returns a new particle exactly when the live population is below \<open>maxParticles\<close> and the
  density of the containing cell is below \<open>maxDensity\<close> and below the per-call cap 1;
  otherwise it returns the rejected result and leaves the system, hence the queue, as it
  was.  A position outside the bounds has density 1 and is therefore always refused.
\<close>

theorem C6_createParticle_admission:
  assumes "gridGeometry sys"
  shows "ParticleSystem_createParticle sys pos False =
     Inr (if real (length (g_particles (grid sys))) < maxParticles sys
             \<and> spec_density sys pos < maxDensity sys \<and> spec_density sys pos < 1
          then (Some (nextParticle sys),
                sys\<lparr>pstore := (pstore sys)(nextParticle sys :=
                         Particle_new (BoundingBox_constrained (bounds sys) pos)),
                    nextParticle := Suc (nextParticle sys),
                    particleCreationQueue := particleCreationQueue sys @ [nextParticle sys]\<rparr>)
          else (None, sys))
   \<and> (\<not> BoundingBox_containsVector (bounds sys) pos \<longrightarrow>
        spec_density sys pos = 1 \<and> ParticleSystem_createParticle sys pos False = Inr (None, sys))"
  using getDensity_spec[OF assms, of pos]
  by (simp add: ParticleSystem_createParticle_def ParticleSystem_checkPosition_def Let_def spec_density_def)

theorem C6_createParticle_admission_witness:
  "gridGeometry demoSystem
   \<and> \<not> BoundingBox_containsVector (bounds demoSystem) \<lparr>vx = 15, vy = 5, vz = 0\<rparr>
   \<and> ParticleSystem_createParticle demoSystem \<lparr>vx = 15, vy = 5, vz = 0\<rparr> False = Inr (None, demoSystem)
   \<and> fst (projr (ParticleSystem_createParticle demoSystem \<lparr>vx = 5, vy = 5, vz = 0\<rparr> False)) = Some 0"
proof -
  have g: "gridGeometry demoSystem"
    unfolding demoSystem_def by (rule gridGeometry_new) simp
  have o: "\<not> BoundingBox_containsVector (bounds demoSystem) \<lparr>vx = 15, vy = 5, vz = 0\<rparr>"
    by (simp add: demoSystem_def ParticleSystem_new_def BoundingBox_new_def
        BoundingBox_containsVector_def BoundingBox_contains_def)
  have d: "spec_density demoSystem \<lparr>vx = 5, vy = 5, vz = 0\<rparr> = 0"
    by (simp add: spec_density_def demoSystem_def ParticleSystem_new_def BoundingBox_new_def
        BoundingBox_containsVector_def BoundingBox_contains_def SpatialGrid_new_def
        BoundingBox_getWidth_def BoundingBox_getHeight_def Vector3_zero_def TagIndex_new_def Let_def)
  have m: "maxParticles demoSystem = 1000" "maxDensity demoSystem = 1 / 10"
    "g_particles (grid demoSystem) = []" "nextParticle demoSystem = 0"
    by (simp_all add: demoSystem_def ParticleSystem_new_def SpatialGrid_new_def Let_def)
  from C6_createParticle_admission[OF g, of "\<lparr>vx = 15, vy = 5, vz = 0\<rparr>"] o
  have "ParticleSystem_createParticle demoSystem \<lparr>vx = 15, vy = 5, vz = 0\<rparr> False = Inr (None, demoSystem)"
    by blast
  moreover from C6_createParticle_admission[OF g, of "\<lparr>vx = 5, vy = 5, vz = 0\<rparr>"] d m
  have "fst (projr (ParticleSystem_createParticle demoSystem \<lparr>vx = 5, vy = 5, vz = 0\<rparr> False)) = Some 0"
    by simp
  ultimately show ?thesis using g o by blast
qed

section \<open>Springs flagged for removal\<close>

lemma Spring_update_sstore: "sstore (Spring_update nrm i s) = sstore s"
  by (simp add: Spring_update_def Let_def)













section \<open>A particle that leaves the grid\<close>

subsection \<open>TagIndex frame lemmas\<close>

lemma particles_addTag [simp]: "particles (TagIndex_addTag e t ti) = particles ti"
  by (simp add: TagIndex_addTag_def Let_def)

lemma particles_removeTag [simp]: "particles (TagIndex_removeTag e t ti) = particles ti"
  by (simp add: TagIndex_removeTag_def split: option.splits)

lemma particles_foldl_addTag [simp]:
  "particles (foldl (\<lambda>acc t. TagIndex_addTag e t acc) ti ts) = particles ti"
  by (induction ts arbitrary: ti) simp_all

lemma particles_foldl_removeTag [simp]:
  "particles (foldl (\<lambda>acc t. TagIndex_removeTag e t acc) ti ts) = particles ti"
  by (induction ts arbitrary: ti) simp_all

lemma particles_TagIndex_add [simp]: "particles (TagIndex_add e ts ti) = particles ti @ [e]"
  by (simp add: TagIndex_add_def)

lemma particles_TagIndex_remove [simp]: "particles (TagIndex_remove e ts ti) = remove1 e (particles ti)"
  by (simp add: TagIndex_remove_def)

lemma tagMembers_removeTag:
  "tagMembers (TagIndex_removeTag e t ti) t' =
     (if t' = t then remove1 e (tagMembers ti t) else tagMembers ti t')"
  by (simp add: TagIndex_removeTag_def tagMembers_def split: option.splits)

lemma tagMembers_upd_particles [simp]: "tagMembers (ti\<lparr>particles := ps\<rparr>) t = tagMembers ti t"
  by (simp add: tagMembers_def)

lemma tagMembers_foldl_removeTag:
  "tagMembers (foldl (\<lambda>acc t. TagIndex_removeTag e t acc) ti ts) t' =
     foldl (\<lambda>l _. remove1 e l) (tagMembers ti t') (filter (\<lambda>t. t = t') ts)"
  by (induction ts arbitrary: ti) (simp_all add: tagMembers_removeTag)




lemma foldl_remove1_other:
  "q \<noteq> e \<Longrightarrow> q \<in> set (foldl (\<lambda>l _. remove1 e l) xs ys) \<longleftrightarrow> q \<in> set xs"
  by (induction ys arbitrary: xs) simp_all

lemma TagIndex_remove_other:
  "q \<noteq> e \<Longrightarrow> q \<in> set (tagMembers (TagIndex_remove e ts ti) t) \<longleftrightarrow> q \<in> set (tagMembers ti t)"
  by (simp add: TagIndex_remove_def tagMembers_foldl_removeTag foldl_remove1_other)

subsection \<open>What a query can return\<close>





lemma hashPosition_cells_upd [simp]:
  "SpatialGrid_hashPosition (g\<lparr>cells := cs\<rparr>) pos = SpatialGrid_hashPosition g pos"
  by (simp add: SpatialGrid_hashPosition_def Let_def)

lemma Particle_update_tags [simp]: "tags (Particle_update mf P) = tags P"
  by (simp add: Particle_update_def Particle_flushForces_def Let_def)

lemma Particle_update_removeFlag [simp]: "removeFlag (Particle_update mf P) = removeFlag P"
  by (simp add: Particle_update_def Particle_flushForces_def Let_def)










section \<open>The bucket invariant\<close>



lemma updateCell_frame [simp]:
  "length (cells (SpatialGrid_updateCell p pos ts old g)) = length (cells g)"
  "g_particles (SpatialGrid_updateCell p pos ts old g) = g_particles g"
  "rows (SpatialGrid_updateCell p pos ts old g) = rows g"
  "cols (SpatialGrid_updateCell p pos ts old g) = cols g"
  "cellSize (SpatialGrid_updateCell p pos ts old g) = cellSize g"
  "g_bounds (SpatialGrid_updateCell p pos ts old g) = g_bounds g"
  "globalTagIndex (SpatialGrid_updateCell p pos ts old g) = globalTagIndex g"
  by (simp_all add: SpatialGrid_updateCell_def Let_def)


lemma gridInv_positions:
  "(\<And>p. position (ps' p) = position (ps p)) \<Longrightarrow> gridInv n q g ps' = gridInv n q g ps"
  by (simp add: gridInv_def bucketed_def)




lemma gridGeometry_frame:
  assumes "gridGeometry s" "bounds s' = bounds s" "cellSize (grid s') = cellSize (grid s)"
    "rows (grid s') = rows (grid s)" "cols (grid s') = cols (grid s)"
    "g_bounds (grid s') = g_bounds (grid s)" "length (cells (grid s')) = length (cells (grid s))"
  shows "gridGeometry s'"
  using assms by (simp add: gridGeometry_def)



lemma Particle_applyForce_position [simp]: "position (Particle_applyForce f P) = position P"
  by (simp add: Particle_applyForce_def)

lemma systemInv_frame:
  assumes "systemInv s" "bounds s' = bounds s" "grid s' = grid s"
    "particleCreationQueue s' = particleCreationQueue s" "nextParticle s' = nextParticle s"
    "\<And>p. position (pstore s' p) = position (pstore s p)"
  shows "systemInv s'"
proof -
  from assms(1) have g: "gridGeometry s" and
    b: "vx (bottomFrontRight (bounds s)) \<ge> 0" "vy (bottomFrontRight (bounds s)) \<ge> 0"
       "vz (bottomFrontRight (bounds s)) \<ge> 0" and
    i: "gridInv (nextParticle s) (particleCreationQueue s) (grid s) (pstore s)"
    by (simp_all add: systemInv_def)
  have "gridGeometry s'" by (rule gridGeometry_frame[OF g]) (simp_all add: assms)
  moreover have "gridInv (nextParticle s) (particleCreationQueue s) (grid s) (pstore s')"
    using i gridInv_positions[of "pstore s'" "pstore s"] assms(6) by simp
  ultimately show ?thesis using b by (simp add: systemInv_def assms)
qed














lemma applyForceTo_systemInv: "systemInv s \<Longrightarrow> systemInv (applyForceTo p f s)"
  by (erule systemInv_frame) (simp_all add: applyForceTo_def)

lemma createSpring_systemInv:
  "systemInv s \<Longrightarrow> systemInv (snd (ParticleSystem_createSpring a b len c s))"
  by (erule systemInv_frame) (simp_all add: ParticleSystem_createSpring_def Let_def)







section \<open>The degenerate spring\<close>

text \<open>
  When the two endpoints of a spring coincide, the difference vector is the zero vector and
  what \<open>Spring.update\<close> does rests on \<open>normalize\<close> alone, which is not among the sources.
  If \<open>normalize\<close> leaves the zero vector as it is, the spring applies no force; a
  normalisation with any other value of the zero vector makes it apply one.
\<close>

lemma Vector3_addVector_zero [simp]: "Vector3_addVector a \<lparr>vx = 0, vy = 0, vz = 0\<rparr> = a"
  by (simp add: Vector3_addVector_def)

lemma Spring_update_zero_delta:
  assumes "position (pstore sys (particle1 (sstore sys i))) = position (pstore sys (particle2 (sstore sys i)))"
    and "nrm Vector3_zero = Vector3_zero"
  shows "forces (pstore (Spring_update nrm i sys) p) = forces (pstore sys p)"
  using assms
  by (simp add: Spring_update_def Let_def Vector3_sub_def Vector3_zero_def Vector3_mult_def
      Particle_applyForce_def)

lemma Spring_update_zero_delta_depends_on_normalize:
  "forces (pstore (Spring_update (\<lambda>_. \<lparr>vx = 1, vy = 0, vz = 0\<rparr>) 0
      (linkedPair\<lparr>pstore := (pstore linkedPair)(1 := pstore linkedPair 0)\<rparr>)) 0)
     = \<lparr>vx = 2, vy = 0, vz = 0\<rparr>"
  by (simp add: scenario_defs model_defs)


section \<open>The pair stencil of the symmetric interactions\<close>

text \<open>
  Where every cell's filtered list is free of duplicates and no entity is listed in two
  cells, the loop over the cells with the within-cell pairs and the four forward neighbours
  calls the interaction exactly once for two distinct entities in the same or in adjacent
  cells (in one of the two argument orders), never for cells further apart, and never for an
  entity paired with itself.
\<close>

lemma collectE_append:
  "collectE (rs @ rs') =
     (case collectE rs of Inl e \<Rightarrow> Inl e
      | Inr xs \<Rightarrow> (case collectE rs' of Inl e \<Rightarrow> Inl e | Inr ys \<Rightarrow> Inr (xs @ ys)))"
  by (induction rs) (simp_all split: sum.splits)

lemma collectE_concat_map:
  "(\<And>x. x \<in> set xs \<Longrightarrow> collectE (F x) = Inr (G x)) \<Longrightarrow>
   collectE (concat (map F xs)) = Inr (concat (map G xs))"
  by (induction xs) (simp_all add: collectE_append)

lemma count_list_concat_map:
  "count_list (concat (map G xs)) p = sum_list (map (\<lambda>x. count_list (G x) p) xs)"
  by (induction xs) simp_all

lemma sum_list_single:
  fixes h :: "'a \<Rightarrow> nat"
  assumes "distinct xs" "k \<in> set xs" "\<And>x. x \<in> set xs \<Longrightarrow> x \<noteq> k \<Longrightarrow> h x = 0"
  shows "sum_list (map h xs) = h k"
  using assms
proof (induction xs)
  case Nil
  then show ?case by simp
next
  case (Cons x xs)
  show ?case
  proof (cases "x = k")
    case True
    with Cons.prems have "\<And>y. y \<in> set xs \<Longrightarrow> h y = 0" by auto
    then have "sum_list (map h xs) = 0" by (simp add: sum_list_eq_0_iff)
    with True show ?thesis by simp
  next
    case False
    with Cons.prems have "k \<in> set xs" "distinct xs" "h x = 0" by auto
    with Cons.IH Cons.prems(3) show ?thesis by simp
  qed
qed

lemma count_list_distinct: "distinct xs \<Longrightarrow> count_list xs a = (if a \<in> set xs then 1 else 0)"
  by (induction xs) auto

lemma count_list_product:
  "count_list (List.product xs ys) (a, b) = count_list xs a * count_list ys b"
proof (induction xs)
  case Nil
  then show ?case by simp
next
  case (Cons x xs)
  have "count_list (map (Pair x) ys) (a, b) = (if x = a then count_list ys b else 0)"
    by (induction ys) auto
  with Cons show ?case by simp
qed

lemma count_list_map_Pair:
  "count_list (map (Pair x) ys) (a, b) = (if x = a then count_list ys b else 0)"
  by (induction ys) auto

lemma pairsWithin_members:
  "(a, b) \<in> set (pairsWithin xs) \<Longrightarrow> a \<in> set xs \<and> b \<in> set xs"
  by (induction xs) auto

lemma count_pairsWithin_absent:
  "a \<notin> set xs \<or> b \<notin> set xs \<Longrightarrow> count_list (pairsWithin xs) (a, b) = 0"
  using pairsWithin_members[of a b xs] by (auto simp: count_list_0_iff)

lemma count_pairsWithin:
  "distinct xs \<Longrightarrow>
   count_list (pairsWithin xs) (a, b) + count_list (pairsWithin xs) (b, a) =
     (if a \<noteq> b \<and> a \<in> set xs \<and> b \<in> set xs then 1 else 0)"
proof (induction xs)
  case Nil
  then show ?case by simp
next
  case (Cons x xs)
  then have d: "distinct xs" and nx: "x \<notin> set xs" by simp_all
  note IH = Cons.IH[OF d]
  have c: "count_list xs y = (if y \<in> set xs then 1 else 0)" for y
    using d by (rule count_list_distinct)
  show ?case
  proof (cases "a = x")
    case ax: True
    show ?thesis
    proof (cases "b = x")
      case True
      with ax nx IH show ?thesis by (simp add: count_list_map_Pair c)
    next
      case False
      with ax nx IH show ?thesis by (simp add: count_list_map_Pair c)
    qed
  next
    case nax: False
    show ?thesis
    proof (cases "b = x")
      case True
      with nax nx IH show ?thesis by (simp add: count_list_map_Pair c)
    next
      case False
      with nax IH show ?thesis by (simp add: count_list_map_Pair)
    qed
  qed
qed

lemma stencil_cover:
  fixes dx dy :: int
  assumes "(dx, dy) \<noteq> (0, 0)"
  shows "(if (dx, dy) \<in> {(1, 0), (1, 1), (0, 1), (-1, 1)} then 1 else 0) +
         (if (- dx, - dy) \<in> {(1, 0), (1, 1), (0, 1), (-1, 1)} then 1 else 0) =
         (if \<bar>dx\<bar> \<le> 1 \<and> \<bar>dy\<bar> \<le> 1 then 1 else (0::nat))"
proof -
  have x: "dx < -1 \<or> dx = -1 \<or> dx = 0 \<or> dx = 1 \<or> 1 < dx" by linarith
  have y: "dy < -1 \<or> dy = -1 \<or> dy = 0 \<or> dy = 1 \<or> 1 < dy" by linarith
  from x y assms show ?thesis
    by (elim disjE) simp_all
qed

lemma symmetricCalls_exactly_once:
  fixes M :: "int \<Rightarrow> int \<Rightarrow> pid list"
  assumes q: "\<And>x y. 0 \<le> x \<Longrightarrow> x < cols g \<Longrightarrow> 0 \<le> y \<Longrightarrow> y < rows g \<Longrightarrow>
                \<exists>c. SpatialGrid_getCell g x y = Some c \<and> TagIndex_query c f = Inr (M x y)"
    and d: "\<And>x y. 0 \<le> x \<Longrightarrow> x < cols g \<Longrightarrow> 0 \<le> y \<Longrightarrow> y < rows g \<Longrightarrow> distinct (M x y)"
    and disj: "\<And>x y x' y'. 0 \<le> x \<Longrightarrow> x < cols g \<Longrightarrow> 0 \<le> y \<Longrightarrow> y < rows g \<Longrightarrow>
                0 \<le> x' \<Longrightarrow> x' < cols g \<Longrightarrow> 0 \<le> y' \<Longrightarrow> y' < rows g \<Longrightarrow>
                (x, y) \<noteq> (x', y') \<Longrightarrow> set (M x y) \<inter> set (M x' y') = {}"
    and a: "0 \<le> a1" "a1 < cols g" "0 \<le> a2" "a2 < rows g" "a \<in> set (M a1 a2)"
    and b: "0 \<le> b1" "b1 < cols g" "0 \<le> b2" "b2 < rows g" "b \<in> set (M b1 b2)"
  shows "\<exists>tr. symmetricCalls g f = Inr tr \<and>
           count_list tr (a, b) + count_list tr (b, a) =
             (if a \<noteq> b \<and> \<bar>a1 - b1\<bar> \<le> 1 \<and> \<bar>a2 - b2\<bar> \<le> 1 then 1 else 0)"
proof -
  define blk where "blk x y x2 y2 =
     (if x2 < 0 \<or> y2 < 0 \<or> x2 \<ge> cols g \<or> y2 \<ge> rows g then []
      else if x = x2 \<and> y = y2 then pairsWithin (M x y) else List.product (M x y) (M x2 y2))"
    for x y x2 y2
  define calls where "calls x y =
     blk x y x y @ blk x y (x + 1) y @ blk x y (x + 1) (y + 1) @ blk x y x (y + 1) @ blk x y (x - 1) (y + 1)"
    for x y
  define X where "X = [0 .. cols g - 1]"
  define Y where "Y = [0 .. rows g - 1]"
  define tr where "tr = concat (map (\<lambda>x. concat (map (\<lambda>y. calls x y) Y)) X)"
  have inX: "x \<in> set X \<longleftrightarrow> 0 \<le> x \<and> x < cols g" for x by (auto simp: X_def)
  have inY: "y \<in> set Y \<longleftrightarrow> 0 \<le> y \<and> y < rows g" for y by (auto simp: Y_def)
  have dX: "distinct X" and dY: "distinct Y" by (simp_all add: X_def Y_def)
  have cell: "applySymmetricCell g f x y x2 y2 = Inr (blk x y x2 y2)"
    if "x \<in> set X" "y \<in> set Y" for x y x2 y2
  proof (cases "x2 < 0 \<or> y2 < 0 \<or> x2 \<ge> cols g \<or> y2 \<ge> rows g")
    case True
    then show ?thesis by (simp add: applySymmetricCell_def blk_def)
  next
    case False
    from that q[of x y] obtain c where c: "SpatialGrid_getCell g x y = Some c" "TagIndex_query c f = Inr (M x y)"
      by (auto simp: inX inY)
    from False q[of x2 y2] obtain c2 where c2: "SpatialGrid_getCell g x2 y2 = Some c2"
      "TagIndex_query c2 f = Inr (M x2 y2)" by auto
    from False c c2 show ?thesis by (simp add: applySymmetricCell_def blk_def)
  qed
  have inner: "collectE (concat (map (\<lambda>y.
        [applySymmetricCell g f x y x y,
         applySymmetricCell g f x y (x + 1) y,
         applySymmetricCell g f x y (x + 1) (y + 1),
         applySymmetricCell g f x y x (y + 1),
         applySymmetricCell g f x y (x - 1) (y + 1)]) Y)) = Inr (concat (map (\<lambda>y. calls x y) Y))"
    if "x \<in> set X" for x
    by (rule collectE_concat_map) (simp add: cell[OF that] calls_def)
  have "collectE (concat (map (\<lambda>x. concat (map (\<lambda>y.
        [applySymmetricCell g f x y x y,
         applySymmetricCell g f x y (x + 1) y,
         applySymmetricCell g f x y (x + 1) (y + 1),
         applySymmetricCell g f x y x (y + 1),
         applySymmetricCell g f x y (x - 1) (y + 1)]) Y)) X)) = Inr tr"
    unfolding tr_def by (rule collectE_concat_map) (rule inner)
  then have res: "symmetricCalls g f = Inr tr"
    by (simp add: symmetricCalls_def X_def Y_def)
  have total: "count_list tr (u, v) =
        (if (u1, u2) = (v1, v2) then count_list (pairsWithin (M u1 u2)) (u, v) else 0) +
        (if (v1 - u1, v2 - u2) \<in> {(1, 0), (1, 1), (0, 1), (-1, 1)} then 1 else 0)"
    if u: "0 \<le> u1" "u1 < cols g" "0 \<le> u2" "u2 < rows g" "u \<in> set (M u1 u2)"
      and v: "0 \<le> v1" "v1 < cols g" "0 \<le> v2" "v2 < rows g" "v \<in> set (M v1 v2)"
    for u v u1 u2 v1 v2
  proof -
    have cu: "count_list (M x y) u = (if (x, y) = (u1, u2) then 1 else 0)"
      if "0 \<le> x" "x < cols g" "0 \<le> y" "y < rows g" for x y
    proof (cases "(x, y) = (u1, u2)")
      case True
      with u(5) d[OF that] show ?thesis by (simp add: count_list_distinct)
    next
      case False
      from disj[OF that u(1-4) False] u(5) have "u \<notin> set (M x y)" by blast
      with False show ?thesis by (simp add: count_list_0_iff)
    qed
    have cv: "count_list (M x y) v = (if (x, y) = (v1, v2) then 1 else 0)"
      if "0 \<le> x" "x < cols g" "0 \<le> y" "y < rows g" for x y
    proof (cases "(x, y) = (v1, v2)")
      case True
      with v(5) d[OF that] show ?thesis by (simp add: count_list_distinct)
    next
      case False
      from disj[OF that v(1-4) False] v(5) have "v \<notin> set (M x y)" by blast
      with False show ?thesis by (simp add: count_list_0_iff)
    qed
    have cross: "count_list (blk x y x2 y2) (u, v) =
          (if (x, y) = (u1, u2) \<and> (x2, y2) = (v1, v2) then 1 else 0)"
      if xy: "0 \<le> x" "x < cols g" "0 \<le> y" "y < rows g" and ne: "(x2, y2) \<noteq> (x, y)" for x y x2 y2
    proof (cases "x2 < 0 \<or> y2 < 0 \<or> x2 \<ge> cols g \<or> y2 \<ge> rows g")
      case True
      with v(1-4) show ?thesis by (auto simp: blk_def)
    next
      case False
      then have v2: "0 \<le> x2" "x2 < cols g" "0 \<le> y2" "y2 < rows g" by auto
      from False ne have "blk x y x2 y2 = List.product (M x y) (M x2 y2)" by (auto simp: blk_def)
      then show ?thesis by (simp add: count_list_product cu[OF xy] cv[OF v2])
    qed
    have within: "count_list (blk x y x y) (u, v) =
          (if (x, y) = (u1, u2) \<and> (u1, u2) = (v1, v2) then count_list (pairsWithin (M u1 u2)) (u, v) else 0)"
      if xy: "0 \<le> x" "x < cols g" "0 \<le> y" "y < rows g" for x y
    proof -
      from xy have e: "blk x y x y = pairsWithin (M x y)" by (simp add: blk_def)
      show ?thesis
      proof (cases "(x, y) = (u1, u2) \<and> (u1, u2) = (v1, v2)")
        case True
        with e show ?thesis by simp
      next
        case False
        then have "(x, y) \<noteq> (u1, u2) \<or> (x, y) \<noteq> (v1, v2)" by auto
        with cu[OF xy] cv[OF xy] have "u \<notin> set (M x y) \<or> v \<notin> set (M x y)"
          by (auto simp: count_list_0_iff split: if_splits)
        from count_pairsWithin_absent[OF this] False e show ?thesis by auto
      qed
    qed
    have cnt: "count_list (calls x y) (u, v) =
          (if (x, y) = (u1, u2) then
             (if (u1, u2) = (v1, v2) then count_list (pairsWithin (M u1 u2)) (u, v) else 0) +
             (if (v1 - u1, v2 - u2) \<in> {(1, 0), (1, 1), (0, 1), (-1, 1)} then 1 else 0)
           else 0)"
      if xy: "0 \<le> x" "x < cols g" "0 \<le> y" "y < rows g" for x y
    proof -
      have c1: "count_list (blk x y (x + 1) y) (u, v) = (if (x, y) = (u1, u2) \<and> (x + 1, y) = (v1, v2) then 1 else 0)"
        by (rule cross[OF xy]) simp
      have c2: "count_list (blk x y (x + 1) (y + 1)) (u, v) = (if (x, y) = (u1, u2) \<and> (x + 1, y + 1) = (v1, v2) then 1 else 0)"
        by (rule cross[OF xy]) simp
      have c3: "count_list (blk x y x (y + 1)) (u, v) = (if (x, y) = (u1, u2) \<and> (x, y + 1) = (v1, v2) then 1 else 0)"
        by (rule cross[OF xy]) simp
      have c4: "count_list (blk x y (x - 1) (y + 1)) (u, v) = (if (x, y) = (u1, u2) \<and> (x - 1, y + 1) = (v1, v2) then 1 else 0)"
        by (rule cross[OF xy]) simp
      show ?thesis
        unfolding calls_def count_list_append within[OF xy] c1 c2 c3 c4
        by auto
    qed
    define h where "h x = sum_list (map (\<lambda>y. count_list (calls x y) (u, v)) Y)" for x
    have hx: "h x = 0" if "x \<in> set X" "x \<noteq> u1" for x
    proof -
      have "count_list (calls x y) (u, v) = 0" if "y \<in> set Y" for y
        using cnt[of x y] that \<open>x \<in> set X\<close> \<open>x \<noteq> u1\<close> by (simp add: inX inY)
      then show ?thesis by (simp add: h_def sum_list_eq_0_iff)
    qed
    have hu: "h u1 = count_list (calls u1 u2) (u, v)"
      unfolding h_def
    proof (rule sum_list_single[OF dY])
      show "u2 \<in> set Y" using u by (simp add: inY)
      show "count_list (calls u1 y) (u, v) = 0" if "y \<in> set Y" "y \<noteq> u2" for y
        using cnt[of u1 y] that u by (simp add: inY)
    qed
    have hfun: "h = (\<lambda>x. sum_list (map (\<lambda>y. count_list (calls x y) (u, v)) Y))"
      by (rule ext) (simp add: h_def)
    have "count_list tr (u, v) = sum_list (map h X)"
      by (simp add: tr_def count_list_concat_map hfun)
    also have "\<dots> = h u1"
      by (rule sum_list_single[OF dX]) (use u hx in \<open>simp_all add: inX\<close>)
    finally show ?thesis using hu cnt[OF u(1-4)] by simp
  qed
  note tab = total[OF a b] and tba = total[OF b a]
  have "count_list tr (a, b) + count_list tr (b, a) =
             (if a \<noteq> b \<and> \<bar>a1 - b1\<bar> \<le> 1 \<and> \<bar>a2 - b2\<bar> \<le> 1 then 1 else 0)"
  proof (cases "(a1, a2) = (b1, b2)")
    case True
    then have e: "b1 = a1" "b2 = a2" by simp_all
    have "count_list tr (a, b) = count_list (pairsWithin (M a1 a2)) (a, b)"
      unfolding tab by (simp add: e)
    moreover have "count_list tr (b, a) = count_list (pairsWithin (M a1 a2)) (b, a)"
      unfolding tba by (simp add: e)
    moreover have "a \<in> set (M a1 a2)" "b \<in> set (M a1 a2)" using a(5) b(5) by (simp_all add: e)
    ultimately show ?thesis
      using count_pairsWithin[OF d[OF a(1-4)], of a b] by (simp add: e)
  next
    case False
    from disj[OF a(1-4) b(1-4) False] a(5) b(5) have ne: "a \<noteq> b" by blast
    from False have f': "(b1, b2) \<noteq> (a1, a2)" by auto
    from False have nz: "(b1 - a1, b2 - a2) \<noteq> (0, 0)" by auto
    have m: "a1 - b1 = - (b1 - a1)" "a2 - b2 = - (b2 - a2)" by simp_all
    have ab: "count_list tr (a, b) =
        (if (b1 - a1, b2 - a2) \<in> {(1, 0), (1, 1), (0, 1), (-1, 1)} then 1 else 0)"
      unfolding tab using False by auto
    have ba: "count_list tr (b, a) =
        (if (- (b1 - a1), - (b2 - a2)) \<in> {(1, 0), (1, 1), (0, 1), (-1, 1)} then 1 else 0)"
      unfolding tba m using f' by auto
    have "\<bar>a1 - b1\<bar> = \<bar>b1 - a1\<bar>" "\<bar>a2 - b2\<bar> = \<bar>b2 - a2\<bar>" by simp_all
    with stencil_cover[OF nz] ne show ?thesis unfolding ab ba by simp
  qed
  with res show ?thesis by blast
qed


text \<open>The spec's scenario, scaled down: one call for the two neighbours, not two.\<close>

lemma symmetricCalls_twoNeighbours:
  "symmetricCalls (grid twoNeighbours) (orFilter [''a'']) = Inr [(0, 1)]"
  by (simp add: scenario_defs model_defs)

end
